theory Spec2Isabelle
  imports Complex_Main "HOL-Library.AList" "HOL-Library.List_Lexorder" "HOL-Library.Char_ord"
begin

section \<open>Data model (src/types.ts)\<close>

text \<open>
  A JavaScript \<^verbatim>\<open>number\<close> holding a coordinate or a distance is modelled as a
  \<^typ>\<open>real\<close>: the model is exact arithmetic on finite coordinates. It does not
  cover the rounding of IEEE doubles: where rounding makes the Haversine term \<open>a\<close>
  exceed 1 (pairs of points close to antipodal), \<^verbatim>\<open>Math.sqrt(1 - a)\<close> is
  \<^verbatim>\<open>NaN\<close> and so is the distance the code returns, which the model does not
  show. Nothing below is stated about distances beyond the comparison with the
  threshold and the distance of a point to itself, which is exactly 0 in doubles too. Timestamps
  (\<^verbatim>\<open>Date.now()\<close>) are integers. An optional field is an \<^typ>\<open>'a option\<close>.
  The field \<^verbatim>\<open>id\<close> is called \<open>itemId\<close> here, since \<open>id\<close> is the identity
  function of HOL.
\<close>

record GeoLocation =
  lat :: real
  lng :: real

record BucketItem =
  itemId :: string
  title :: string
  description :: "string option"
  targetLocation :: GeoLocation
  completed :: bool
  completedAt :: "int option"
  notified :: bool
  category :: string
  interest :: string
  createdAt :: int
  userId :: "string option"

record User =
  uid :: string
  email :: "string option"

section \<open>Distance engine (src/utils/geoUtils.ts)\<close>

text \<open>
  \<^verbatim>\<open>Math.atan2(y, x)\<close> on finite arguments: the angle of the point \<open>(x, y)\<close>,
  in \<open>(-\<pi>, \<pi>]\<close>, and \<open>0\<close> at the origin.
\<close>

definition atan2 :: "real \<Rightarrow> real \<Rightarrow> real" where
  "atan2 y x =
     (if 0 < x then arctan (y / x)
      else if x < 0 then (if 0 \<le> y then arctan (y / x) + pi else arctan (y / x) - pi)
      else if 0 < y then pi / 2
      else if y < 0 then - (pi / 2)
      else 0)"

definition calculateDistance :: "GeoLocation \<Rightarrow> GeoLocation \<Rightarrow> real" where
  "calculateDistance loc1 loc2 =
     (let R = 6371000;
          phi1 = (lat loc1 * pi) / 180;
          phi2 = (lat loc2 * pi) / 180;
          dphi = ((lat loc2 - lat loc1) * pi) / 180;
          dlambda = ((lng loc2 - lng loc1) * pi) / 180;
          a = sin (dphi / 2) * sin (dphi / 2) +
              cos phi1 * cos phi2 * sin (dlambda / 2) * sin (dlambda / 2);
          c = 2 * atan2 (sqrt a) (sqrt (1 - a))
      in R * c)"

section \<open>Proximity evaluator (src/App.tsx)\<close>

definition PROXIMITY_THRESHOLD :: real where
  "PROXIMITY_THRESHOLD = 2000"

text \<open>
  \<^verbatim>\<open>sendNotification\<close> shows a browser notification when the permission it sees
  is \<^verbatim>\<open>'granted'\<close>; the constructor may throw, which is caught and logged. The
  permission value and the behaviour of the constructor are the environment \<open>NotifyEnv\<close>:
  the function reads \<^verbatim>\<open>permissionStatus\<close> from the closure it was created in, and
  on the sample path that is the closure of \<^verbatim>\<open>updateLocation\<close>, which
  \<^verbatim>\<open>useCallback\<close> keeps from the first render. \<open>heading\<close> is the first argument
  of the constructor (the notification's title).
\<close>

datatype NotificationPermission = Default | Denied | Granted

record Notification =
  heading :: string
  body :: string
  icon :: string

datatype Dispatch = Shown Notification | Failed | NotPermitted

record NotifyEnv =
  permissionStatus :: NotificationPermission
  constructs :: "Notification \<Rightarrow> bool"

definition sendNotification :: "NotifyEnv \<Rightarrow> BucketItem \<Rightarrow> Dispatch" where
  \<open>sendNotification env item =
     (if permissionStatus env = Granted then
        (let n = \<lparr>heading = ''You're close!'',
                  body = ''You are near "'' @ title item @
                         ''". Time to check it off your bucket list!'',
                  icon = ''https://cdn-icons-png.flaticon.com/512/854/854878.png''\<rparr>
         in if constructs env n then Shown n else Failed)
      else NotPermitted)\<close>

text \<open>
  An alert is one call \<^verbatim>\<open>sendNotification(item)\<close>: the item passed and what the call
  did. \<open>mapItems\<close> is \<^verbatim>\<open>Array.prototype.map\<close> with a callback that has effects,
  run left to right; the effects of the callback of \<^verbatim>\<open>checkProximity\<close> are the local
  flag \<^verbatim>\<open>hasChanges\<close> and the alerts sent so far.
\<close>

type_synonym Alert = "BucketItem \<times> Dispatch"

fun mapItems :: "('a \<Rightarrow> 's \<Rightarrow> 'b \<times> 's) \<Rightarrow> 'a list \<Rightarrow> 's \<Rightarrow> 'b list \<times> 's" where
  "mapItems f [] s = ([], s)"
| "mapItems f (x # xs) s =
     (case f x s of (y, s1) \<Rightarrow>
        (case mapItems f xs s1 of (ys, s2) \<Rightarrow> (y # ys, s2)))"

definition visit ::
  "NotifyEnv \<Rightarrow> GeoLocation \<Rightarrow> BucketItem \<Rightarrow> bool \<times> Alert list \<Rightarrow> BucketItem \<times> (bool \<times> Alert list)" where
  "visit env currentLoc item s =
     (if completed item \<or> notified item then (item, s)
      else
        (let dist = calculateDistance currentLoc (targetLocation item) in
         if dist < PROXIMITY_THRESHOLD
         then (item\<lparr>notified := True\<rparr>, (True, snd s @ [(item, sendNotification env item)]))
         else (item, s)))"

definition checkProximity ::
  "NotifyEnv \<Rightarrow> GeoLocation \<Rightarrow> BucketItem list \<Rightarrow> BucketItem list \<times> Alert list" where
  "checkProximity env currentLoc prevItems =
     (case mapItems (visit env currentLoc) prevItems (False, []) of
        (newItems, hasChanges, alerts) \<Rightarrow>
          (if hasChanges then newItems else prevItems, alerts))"

text \<open>
  The precondition of the latch as the specification words it, the item an evaluation
  returns for an item, and the number of alerts sent for an item identity.
\<close>

definition near :: "GeoLocation \<Rightarrow> BucketItem \<Rightarrow> bool" where
  "near currentLoc item \<longleftrightarrow>
     \<not> completed item \<and> \<not> notified item \<and>
     calculateDistance currentLoc (targetLocation item) < 2000"

definition latch :: "GeoLocation \<Rightarrow> BucketItem \<Rightarrow> BucketItem" where
  "latch currentLoc item = (if near currentLoc item then item\<lparr>notified := True\<rparr> else item)"

text \<open>
  The item \<^verbatim>\<open>handleSaveItem\<close> creates; \<open>uuid\<close> is \<^verbatim>\<open>crypto.randomUUID()\<close> and
  \<open>now\<close> is \<^verbatim>\<open>Date.now()\<close>.
\<close>

definition newItem ::
  "string \<Rightarrow> int \<Rightarrow> User option \<Rightarrow> string \<Rightarrow> string \<Rightarrow> string \<Rightarrow> GeoLocation \<Rightarrow> string option \<Rightarrow> BucketItem" where
  "newItem uuid now usr ttl cat intr location descr =
     \<lparr>itemId = uuid, title = ttl, description = descr, targetLocation = location,
      completed = False, completedAt = None, notified = False, category = cat,
      interest = intr, createdAt = now, userId = map_option uid usr\<rparr>"

definition alertsFor :: "string \<Rightarrow> Alert list \<Rightarrow> nat" where
  "alertsFor i alerts = length (filter (\<lambda>a. itemId (fst a) = i) alerts)"

section \<open>Local store (LocalDatabase)\<close>

text \<open>
  The IndexedDB object store \<^verbatim>\<open>items\<close> with key path \<^verbatim>\<open>id\<close>: an association
  list with one entry per key. \<^verbatim>\<open>put\<close> replaces the entry of the key or adds one,
  \<^verbatim>\<open>delete\<close> removes it if present, \<^verbatim>\<open>getAll\<close> returns the values in key
  order. Requests are taken to succeed (no quota or transaction error).
\<close>

type_synonym ObjectStore = "(string \<times> BucketItem) list"

definition localDB_getAllItems :: "ObjectStore \<Rightarrow> BucketItem list" where
  "localDB_getAllItems db = map snd (sort_key fst db)"

definition localDB_saveItem :: "BucketItem \<Rightarrow> ObjectStore \<Rightarrow> ObjectStore" where
  "localDB_saveItem item db = AList.update (itemId item) item db"

definition localDB_deleteItem :: "string \<Rightarrow> ObjectStore \<Rightarrow> ObjectStore" where
  "localDB_deleteItem iid db = AList.delete iid db"

text \<open>
  A field of the parsed backup document as \<^verbatim>\<open>Array.isArray\<close> sees it: absent, a
  value that is not an array, or an array. The file read is unreadable, not JSON, the
  JSON value \<^verbatim>\<open>null\<close> (reading \<^verbatim>\<open>data.items\<close> throws), or a document.
  The elements of an array of items are taken to be well-formed items.
\<close>

datatype 'a JsField = Undefined | NotAnArray | Array "'a list"

fun isArray :: "'a JsField \<Rightarrow> bool" where
  "isArray (Array xs) = True"
| "isArray Undefined = False"
| "isArray NotAnArray = False"

record BackupData =
  backupItems :: "BucketItem JsField"
  backupCustomBuckets :: "string JsField"
  backupCustomInterests :: "string JsField"
  exportedAt :: "int option"

datatype BackupFile = Unreadable | Malformed | JsonNull | Document BackupData

datatype ImportError = ReadError | SyntaxError | TypeError | InvalidBackupFileFormat

definition localDB_importBackup ::
  "BackupFile \<Rightarrow> ObjectStore \<Rightarrow> (ImportError + BackupData) \<times> ObjectStore" where
  "localDB_importBackup file db =
     (case file of
        Unreadable \<Rightarrow> (Inl ReadError, db)
      | Malformed \<Rightarrow> (Inl SyntaxError, db)
      | JsonNull \<Rightarrow> (Inl TypeError, db)
      | Document data \<Rightarrow>
          (case backupItems data of
             Array its \<Rightarrow> (Inr data, fold localDB_saveItem its [])
           | Undefined \<Rightarrow> (Inl InvalidBackupFileFormat, db)
           | NotAnArray \<Rightarrow> (Inl InvalidBackupFileFormat, db)))"

section \<open>Remote stores (MockCloudService, FirebaseCloudService)\<close>

text \<open>
  The mock keeps one JSON array per user in \<^verbatim>\<open>localStorage\<close>, under the key
  \<^verbatim>\<open>cloud_mock_<userId>_items\<close>; the model keys the arrays by the user id.
\<close>

type_synonym LocalStorage = "(string \<times> BucketItem list) list"

definition getMockItems :: "string \<Rightarrow> LocalStorage \<Rightarrow> BucketItem list" where
  "getMockItems usr ls = (case map_of ls usr of None \<Rightarrow> [] | Some its \<Rightarrow> its)"

definition saveMockItems :: "string \<Rightarrow> BucketItem list \<Rightarrow> LocalStorage \<Rightarrow> LocalStorage" where
  "saveMockItems usr its ls = AList.update usr its ls"

definition mock_addItem :: "string \<Rightarrow> BucketItem \<Rightarrow> LocalStorage \<Rightarrow> LocalStorage" where
  "mock_addItem usr item ls =
     (let its = getMockItems usr ls
      in saveMockItems usr (item\<lparr>userId := Some usr\<rparr> # its) ls)"

definition mock_updateItem :: "string \<Rightarrow> BucketItem \<Rightarrow> LocalStorage \<Rightarrow> LocalStorage" where
  "mock_updateItem usr item ls =
     (let its = getMockItems usr ls;
          its' = map (\<lambda>i. if itemId i = itemId item then item else i) its
      in saveMockItems usr its' ls)"

definition mock_deleteItem :: "string \<Rightarrow> string \<Rightarrow> LocalStorage \<Rightarrow> LocalStorage" where
  "mock_deleteItem usr iid ls =
     (let its = getMockItems usr ls;
          its' = filter (\<lambda>i. itemId i \<noteq> iid) its
      in saveMockItems usr its' ls)"

text \<open>
  The Firestore collection \<^verbatim>\<open>bucketItems\<close>, keyed by document id. Of the Firestore
  API: \<^verbatim>\<open>setDoc\<close> writes the document whether or not it exists, \<^verbatim>\<open>updateDoc\<close>
  fails on a document that does not exist and otherwise overwrites the fields given,
  \<^verbatim>\<open>deleteDoc\<close> removes the document if it exists. An optional field that the
  item does not carry is left as the document has it.
\<close>

type_synonym Firestore = "(string \<times> BucketItem) list"

datatype CloudError = NotFound

definition mergeFields :: "BucketItem \<Rightarrow> BucketItem \<Rightarrow> BucketItem" where
  "mergeFields old item =
     item\<lparr>description := (case description item of None \<Rightarrow> description old | Some d \<Rightarrow> Some d),
          completedAt := (case completedAt item of None \<Rightarrow> completedAt old | Some t \<Rightarrow> Some t),
          userId := (case userId item of None \<Rightarrow> userId old | Some u \<Rightarrow> Some u)\<rparr>"

definition firebase_addItem :: "string \<Rightarrow> BucketItem \<Rightarrow> Firestore \<Rightarrow> Firestore" where
  "firebase_addItem usr item fs = AList.update (itemId item) (item\<lparr>userId := Some usr\<rparr>) fs"

definition firebase_updateItem :: "string \<Rightarrow> BucketItem \<Rightarrow> Firestore \<Rightarrow> CloudError + Firestore" where
  "firebase_updateItem usr item fs =
     (case map_of fs (itemId item) of
        None \<Rightarrow> Inl NotFound
      | Some old \<Rightarrow> Inr (AList.update (itemId item) (mergeFields old item) fs))"

definition firebase_deleteItem :: "string \<Rightarrow> string \<Rightarrow> Firestore \<Rightarrow> Firestore" where
  "firebase_deleteItem usr iid fs = AList.delete iid fs"

definition firebase_items :: "string \<Rightarrow> Firestore \<Rightarrow> BucketItem list" where
  "firebase_items usr fs =
     sort_key (\<lambda>i. - createdAt i)
       (map (\<lambda>kd. (snd kd)\<lparr>itemId := fst kd\<rparr>) (filter (\<lambda>kd. userId (snd kd) = Some usr) fs))"

datatype CloudService = MockCloudService LocalStorage | FirebaseCloudService Firestore

fun cloud_addItem :: "string \<Rightarrow> BucketItem \<Rightarrow> CloudService \<Rightarrow> CloudError + CloudService" where
  "cloud_addItem usr item (MockCloudService ls) = Inr (MockCloudService (mock_addItem usr item ls))"
| "cloud_addItem usr item (FirebaseCloudService fs) =
     Inr (FirebaseCloudService (firebase_addItem usr item fs))"

fun cloud_updateItem :: "string \<Rightarrow> BucketItem \<Rightarrow> CloudService \<Rightarrow> CloudError + CloudService" where
  "cloud_updateItem usr item (MockCloudService ls) =
     Inr (MockCloudService (mock_updateItem usr item ls))"
| "cloud_updateItem usr item (FirebaseCloudService fs) =
     map_sum (\<lambda>e. e) FirebaseCloudService (firebase_updateItem usr item fs)"

fun cloud_deleteItem :: "string \<Rightarrow> string \<Rightarrow> CloudService \<Rightarrow> CloudError + CloudService" where
  "cloud_deleteItem usr iid (MockCloudService ls) =
     Inr (MockCloudService (mock_deleteItem usr iid ls))"
| "cloud_deleteItem usr iid (FirebaseCloudService fs) =
     Inr (FirebaseCloudService (firebase_deleteItem usr iid fs))"

fun subscribeToItems :: "string \<Rightarrow> CloudService \<Rightarrow> BucketItem list" where
  "subscribeToItems usr (MockCloudService ls) = getMockItems usr ls"
| "subscribeToItems usr (FirebaseCloudService fs) = firebase_items usr fs"

section \<open>Application state and handlers (src/App.tsx)\<close>

text \<open>
  The state of the component, the two stores, the requests to
  \<^verbatim>\<open>navigator.geolocation.getCurrentPosition\<close> that have not resolved yet
  (\<open>inFlight\<close>) and the alerts sent so far (\<open>notifications\<close>). A request remembers
  the flag its error callback passes to \<^verbatim>\<open>handleError\<close>. \<open>maximumAge = None\<close> is
  \<^verbatim>\<open>Infinity\<close>. The store call \<^verbatim>\<open>handleSaveItem\<close> and
  \<^verbatim>\<open>deleteItem\<close> await is taken to complete with nothing running in between.
\<close>

record PositionOptions =
  enableHighAccuracy :: bool
  timeout :: nat
  maximumAge :: "nat option"

record GeoRequest =
  options :: PositionOptions
  isLowAccuracy :: bool

record GeolocationCoordinates =
  latitude :: real
  longitude :: real

datatype GeoResult = Position GeolocationCoordinates | PositionError nat

record App =
  user :: "User option"
  items :: "BucketItem list"
  currentLocation :: "GeoLocation option"
  customBuckets :: "string list"
  customInterests :: "string list"
  isTracking :: bool
  editingItem :: "BucketItem option"
  geoError :: "string option"
  localDB :: ObjectStore
  cloudService :: CloudService
  inFlight :: "GeoRequest list"
  notifications :: "Alert list"

definition handleSuccess :: "NotifyEnv \<Rightarrow> GeolocationCoordinates \<Rightarrow> App \<Rightarrow> App" where
  "handleSuccess env position st =
     (let newLoc = \<lparr>lat = latitude position, lng = longitude position\<rparr> in
      case checkProximity env newLoc (items st) of
        (its, alerts) \<Rightarrow>
          st\<lparr>geoError := None, currentLocation := Some newLoc, items := its,
             notifications := notifications st @ alerts\<rparr>)"

text \<open>
  The two requests of a sample attempt, with the options the source passes, and the
  message \<^verbatim>\<open>handleError\<close> chooses for an error code (1 permission denied,
  2 position unavailable, 3 timeout).
\<close>

definition highAccuracyRequest :: GeoRequest where
  "highAccuracyRequest =
     \<lparr>options = \<lparr>enableHighAccuracy = True, timeout = 30000, maximumAge = Some 60000\<rparr>,
      isLowAccuracy = False\<rparr>"

definition lowAccuracyRequest :: GeoRequest where
  "lowAccuracyRequest =
     \<lparr>options = \<lparr>enableHighAccuracy = False, timeout = 30000, maximumAge = None\<rparr>,
      isLowAccuracy = True\<rparr>"

definition errorMessage :: "nat \<Rightarrow> string" where
  "errorMessage code =
     (if code = 1 then ''Location permission denied. Please enable it in your browser settings.''
      else if code = 2 then ''Location information is unavailable.''
      else if code = 3 then
        ''Location request timed out. Please check your signal or move to an open area.''
      else ''Unable to retrieve location.'')"

definition handleError :: "nat \<Rightarrow> bool \<Rightarrow> App \<Rightarrow> App" where
  "handleError code isLow st =
     (if code = 3 \<and> \<not> isLow then st\<lparr>inFlight := inFlight st @ [lowAccuracyRequest]\<rparr>
      else
        (let st1 = (if code = 1 then st\<lparr>isTracking := False\<rparr> else st)
         in st1\<lparr>geoError := Some (errorMessage code)\<rparr>))"

definition updateLocation :: "bool \<Rightarrow> App \<Rightarrow> App" where
  "updateLocation geolocation st =
     (if \<not> geolocation then
        st\<lparr>geoError := Some ''Geolocation is not supported by your browser'', isTracking := False\<rparr>
      else st\<lparr>inFlight := inFlight st @ [highAccuracyRequest]\<rparr>)"

text \<open>
  The geolocation collaborator completes the in-flight request \<open>k\<close> with a position or
  an error code, and runs the callback given for it.
\<close>

definition resolve :: "NotifyEnv \<Rightarrow> nat \<Rightarrow> GeoResult \<Rightarrow> App \<Rightarrow> App" where
  "resolve env k result st =
     (if k < length (inFlight st) then
        (let req = inFlight st ! k;
             st1 = st\<lparr>inFlight := take k (inFlight st) @ drop (Suc k) (inFlight st)\<rparr>
         in case result of
              Position p \<Rightarrow> handleSuccess env p st1
            | PositionError code \<Rightarrow> handleError code (isLowAccuracy req) st1)
      else st)"

text \<open>
  The polling effect: when \<^verbatim>\<open>isTracking\<close> becomes true, \<^verbatim>\<open>updateLocation\<close>
  runs immediately and then on every firing of the interval timer; the effect's cleanup
  clears the timer when \<^verbatim>\<open>isTracking\<close> changes, so a firing (\<open>tick\<close>) happens
  only while tracking. \<open>toggleTracking\<close> is the button's handler followed by the
  effect's immediate call; turning tracking off is \<^verbatim>\<open>stopTracking\<close>.
  \<open>geolocation\<close> says whether \<^verbatim>\<open>navigator.geolocation\<close> exists.
\<close>

definition tick :: "bool \<Rightarrow> App \<Rightarrow> App" where
  "tick geolocation st = (if isTracking st then updateLocation geolocation st else st)"

definition toggleTracking :: "bool \<Rightarrow> App \<Rightarrow> App" where
  "toggleTracking geolocation st =
     (if isTracking st then st\<lparr>isTracking := False, geoError := None\<rparr>
      else tick geolocation (st\<lparr>isTracking := True\<rparr>))"

definition dismissGeoError :: "App \<Rightarrow> App" where
  "dismissGeoError st = st\<lparr>geoError := None\<rparr>"

text \<open>
  One sample attempt run to its end: \<^verbatim>\<open>updateLocation\<close> issues the request, the
  collaborator answers it with \<open>high\<close>, and if that left a further request in flight
  the collaborator answers that one with \<open>low\<close>.
\<close>

definition sampleAttempt :: "NotifyEnv \<Rightarrow> GeoResult \<Rightarrow> GeoResult \<Rightarrow> App \<Rightarrow> App" where
  "sampleAttempt env high low st =
     (let st1 = updateLocation True st;
          st2 = resolve env (length (inFlight st)) high st1
      in if length (inFlight st2) = length (inFlight st) then st2
         else resolve env (length (inFlight st)) low st2)"

text \<open>
  The data sync effect: the items of the signed-in user as the subscription delivers
  them, or the items of the local store, newest first. When signed in, every later
  delivery of the subscription runs the same \<^verbatim>\<open>setItems(cloudItems)\<close>; the mock
  delivers once on subscribing and then every two seconds (its \<^verbatim>\<open>load\<close> on
  \<^verbatim>\<open>setInterval\<close>), whether or not anything changed.
\<close>

definition loadItems :: "App \<Rightarrow> App" where
  "loadItems st =
     (case user st of
        Some u \<Rightarrow> st\<lparr>items := subscribeToItems (uid u) (cloudService st)\<rparr>
      | None \<Rightarrow>
          (let dbItems = localDB_getAllItems (localDB st)
           in st\<lparr>items := sort_key (\<lambda>i. - createdAt i) dbItems\<rparr>))"

definition initiateEdit :: "BucketItem \<Rightarrow> App \<Rightarrow> App" where
  "initiateEdit item st = st\<lparr>editingItem := Some item\<rparr>"

definition handleModalClose :: "App \<Rightarrow> App" where
  "handleModalClose st = st\<lparr>editingItem := None\<rparr>"

definition handleSaveItem ::
  "string \<Rightarrow> int \<Rightarrow> string \<Rightarrow> string \<Rightarrow> string \<Rightarrow> GeoLocation \<Rightarrow> string option \<Rightarrow> App \<Rightarrow> App" where
  "handleSaveItem uuid now ttl cat intr location descr st =
     (case editingItem st of
        Some editing \<Rightarrow>
          (let updatedItem = editing\<lparr>title := ttl, category := cat, interest := intr,
                 targetLocation := location, description := descr\<rparr>
           in case user st of
                Some u \<Rightarrow>
                  (case cloud_updateItem (uid u) updatedItem (cloudService st) of
                     Inl err \<Rightarrow> st
                   | Inr svc \<Rightarrow> st\<lparr>cloudService := svc, editingItem := None\<rparr>)
              | None \<Rightarrow>
                  st\<lparr>localDB := localDB_saveItem updatedItem (localDB st),
                     items := map (\<lambda>item. if itemId item = itemId editing then updatedItem else item)
                                (items st),
                     editingItem := None\<rparr>)
      | None \<Rightarrow>
          (let item = newItem uuid now (user st) ttl cat intr location descr
           in case user st of
                Some u \<Rightarrow>
                  (case cloud_addItem (uid u) item (cloudService st) of
                     Inl err \<Rightarrow> st
                   | Inr svc \<Rightarrow> st\<lparr>cloudService := svc\<rparr>)
              | None \<Rightarrow>
                  st\<lparr>localDB := localDB_saveItem item (localDB st), items := item # items st\<rparr>))"

text \<open>
  \<^verbatim>\<open>toggleComplete\<close> builds \<^verbatim>\<open>updatedItem\<close> from the item list of the render it
  was created in, awaits the store call, and only then runs
  \<^verbatim>\<open>setItems(prev => prev.map(...))\<close>; other callbacks can run during the await.
  \<open>toggleComplete_start\<close> is the handler up to the await (it returns the item to write
  back when there is one), \<open>toggleComplete_finish\<close> is the update after it, and
  \<open>toggleComplete\<close> is the two with nothing in between.
\<close>

definition toggleComplete_start :: "string \<Rightarrow> int \<Rightarrow> App \<Rightarrow> BucketItem option \<times> App" where
  "toggleComplete_start iid now st =
     (case find (\<lambda>i. itemId i = iid) (items st) of
        None \<Rightarrow> (None, st)
      | Some item \<Rightarrow>
          (let done = \<not> completed item;
               updatedItem = item\<lparr>completed := done,
                                  completedAt := (if done then Some now else None)\<rparr>
           in case user st of
                Some u \<Rightarrow>
                  (case cloud_updateItem (uid u) updatedItem (cloudService st) of
                     Inl err \<Rightarrow> (None, st)
                   | Inr svc \<Rightarrow> (None, st\<lparr>cloudService := svc\<rparr>))
              | None \<Rightarrow>
                  (Some updatedItem,
                   st\<lparr>localDB := localDB_saveItem updatedItem (localDB st)\<rparr>)))"

definition toggleComplete_finish :: "string \<Rightarrow> BucketItem \<Rightarrow> App \<Rightarrow> App" where
  "toggleComplete_finish iid updatedItem st =
     st\<lparr>items := map (\<lambda>i. if itemId i = iid then updatedItem else i) (items st)\<rparr>"

definition toggleComplete :: "string \<Rightarrow> int \<Rightarrow> App \<Rightarrow> App" where
  "toggleComplete iid now st =
     (case toggleComplete_start iid now st of
        (None, st1) \<Rightarrow> st1
      | (Some updatedItem, st1) \<Rightarrow> toggleComplete_finish iid updatedItem st1)"

definition deleteItem :: "string \<Rightarrow> App \<Rightarrow> App" where
  "deleteItem iid st =
     (case user st of
        Some u \<Rightarrow>
          (case cloud_deleteItem (uid u) iid (cloudService st) of
             Inl err \<Rightarrow> st
           | Inr svc \<Rightarrow> st\<lparr>cloudService := svc\<rparr>)
      | None \<Rightarrow>
          st\<lparr>localDB := localDB_deleteItem iid (localDB st),
             items := filter (\<lambda>item. itemId item \<noteq> iid) (items st)\<rparr>)"

definition handleDataImport :: "BackupData \<Rightarrow> App \<Rightarrow> App" where
  "handleDataImport data st =
     (let st1 = (case backupItems data of Array its \<Rightarrow> st\<lparr>items := its\<rparr>
                 | Undefined \<Rightarrow> st | NotAnArray \<Rightarrow> st);
          st2 = (case backupCustomBuckets data of Array bs \<Rightarrow> st1\<lparr>customBuckets := bs\<rparr>
                 | Undefined \<Rightarrow> st1 | NotAnArray \<Rightarrow> st1)
      in case backupCustomInterests data of Array cs \<Rightarrow> st2\<lparr>customInterests := cs\<rparr>
         | Undefined \<Rightarrow> st2 | NotAnArray \<Rightarrow> st2)"

text \<open>
  \<^verbatim>\<open>handleFileChange\<close> of the settings dialog: the message it sets is
  \<^verbatim>\<open>Restored n items successfully.\<close> or \<^verbatim>\<open>Invalid backup file.\<close>
\<close>

datatype ImportMsg = Restored nat | InvalidBackupFile

definition handleFileChange :: "BackupFile \<Rightarrow> App \<Rightarrow> App \<times> ImportMsg" where
  "handleFileChange file st =
     (case localDB_importBackup file (localDB st) of
        (Inr data, db) \<Rightarrow>
          (handleDataImport data (st\<lparr>localDB := db\<rparr>),
           Restored (case backupItems data of Array its \<Rightarrow> length its
                     | Undefined \<Rightarrow> 0 | NotAnArray \<Rightarrow> 0))
      | (Inl err, db) \<Rightarrow> (st\<lparr>localDB := db\<rparr>, InvalidBackupFile))"

definition initialApp :: "CloudService \<Rightarrow> App" where
  "initialApp svc =
     \<lparr>user = None, items = [], currentLocation = None, customBuckets = [],
      customInterests = [], isTracking = False, editingItem = None, geoError = None,
      localDB = [], cloudService = svc, inFlight = [], notifications = []\<rparr>"

section \<open>Example data\<close>

text \<open>
  Two items at the origin, one of them completed; a notification environment in which
  every alert is shown and the one of the
  first render (permission \<^verbatim>\<open>'default'\<close>, the initial state); the application
  in local mode with the first item stored and tracking just started (one request in
  flight), then stopped; the same application with the edit dialog opened on the item,
  then after a fix at the origin, then after saving the dialog; the application signed
  in to the mock cloud service, which stores the first item, with the items delivered
  and tracking just started; the local application after the first half of
  \<^verbatim>\<open>toggleComplete\<close> on the item; and a backup document whose \<open>items\<close> field
  is not an array.
\<close>

definition origin :: GeoLocation where
  "origin = \<lparr>lat = 0, lng = 0\<rparr>"

definition cafe :: BucketItem where
  "cafe = newItem ''a'' 1 None ''Cafe'' ''Food'' ''ASAP'' origin None"

definition museum :: BucketItem where
  "museum = (newItem ''b'' 2 None ''Museum'' ''Culture'' ''Must try'' origin None)
              \<lparr>completed := True, completedAt := Some 3\<rparr>"

definition granted :: NotifyEnv where
  "granted = \<lparr>permissionStatus = Granted, constructs = (\<lambda>n. True)\<rparr>"

definition unprompted :: NotifyEnv where
  "unprompted = \<lparr>permissionStatus = Default, constructs = (\<lambda>n. True)\<rparr>"

definition tracking :: App where
  "tracking = toggleTracking True
     ((initialApp (MockCloudService []))\<lparr>items := [cafe], localDB := [(''a'', cafe)]\<rparr>)"

definition stopped :: App where
  "stopped = toggleTracking True tracking"

definition fixAtOrigin :: GeoResult where
  "fixAtOrigin = Position \<lparr>latitude = 0, longitude = 0\<rparr>"

definition editing :: App where
  "editing = initiateEdit cafe tracking"

definition latched :: App where
  "latched = resolve unprompted 0 fixAtOrigin editing"

definition saved :: App where
  "saved = handleSaveItem ''c'' 5 ''Coffee bar'' ''Food'' ''ASAP'' origin None latched"

definition signedIn :: App where
  "signedIn = toggleTracking True (loadItems
     ((initialApp (MockCloudService (mock_addItem ''u'' cafe [])))
        \<lparr>user := Some \<lparr>uid = ''u'', email = None\<rparr>\<rparr>))"

definition toggling :: "BucketItem option \<times> App" where
  "toggling = toggleComplete_start ''a'' 9 tracking"

definition brokenBackup :: BackupData where
  "brokenBackup =
     \<lparr>backupItems = NotAnArray, backupCustomBuckets = Array [''Food''],
      backupCustomInterests = Undefined, exportedAt = Some 7\<rparr>"

section \<open>Properties of the distance engine\<close>

lemma calculateDistance_same: "calculateDistance a a = 0"
  by (simp add: calculateDistance_def atan2_def)

section \<open>Properties of the proximity evaluator\<close>

lemma visit_eq:
  "visit env loc x (h, q) =
     (latch loc x,
      (h \<or> near loc x,
       q @ (if near loc x then [(x, sendNotification env x)] else [])))"
  by (simp add: visit_def latch_def near_def PROXIMITY_THRESHOLD_def Let_def)

lemma mapItems_visit:
  "mapItems (visit env loc) xs (h, q) =
     (map (latch loc) xs,
      (h \<or> filter (near loc) xs \<noteq> [],
       q @ map (\<lambda>x. (x, sendNotification env x)) (filter (near loc) xs)))"
proof (induction xs arbitrary: h q)
  case Nil
  show ?case by simp
next
  case (Cons x xs)
  show ?case
    by (simp add: Cons.IH visit_eq)
qed

lemma latch_id: "filter (near loc) xs = [] \<Longrightarrow> map (latch loc) xs = xs"
  by (induction xs) (auto simp: latch_def split: if_splits)

lemma checkProximity_eq:
  "checkProximity env loc xs =
     (map (latch loc) xs, map (\<lambda>x. (x, sendNotification env x)) (filter (near loc) xs))"
  by (simp add: checkProximity_def mapItems_visit latch_id)

lemma latch_itemId: "map itemId (map (latch loc) xs) = map itemId xs"
  by (induction xs) (simp_all add: latch_def)

lemma filter_id_absent:
  "i \<notin> set (map itemId xs) \<Longrightarrow> filter (\<lambda>y. itemId y = i \<and> P y) xs = []"
  by (induction xs) auto

lemma filter_id_distinct_member:
  "distinct (map itemId xs) \<Longrightarrow> x \<in> set xs \<Longrightarrow>
   filter (\<lambda>y. itemId y = itemId x \<and> P y) xs = (if P x then [x] else [])"
proof (induction xs)
  case Nil
  then show ?case by simp
next
  case (Cons y ys)
  show ?case
  proof (cases "y = x")
    case True
    have "filter (\<lambda>z. itemId z = itemId x \<and> P z) ys = []"
      using Cons.prems True filter_id_absent [of "itemId x" ys P] by simp
    with True show ?thesis by simp
  next
    case False
    with Cons.prems have mem: "x \<in> set ys" and ne: "itemId y \<noteq> itemId x"
      by (auto simp: image_iff)
    from Cons.IH [OF _ mem] Cons.prems ne show ?thesis by simp
  qed
qed

lemma alertsFor_checkProximity:
  "alertsFor i (snd (checkProximity env loc xs)) =
     length (filter (\<lambda>x. itemId x = i \<and> near loc x) xs)"
  by (simp add: checkProximity_eq alertsFor_def filter_map o_def conj_commute)

text \<open>
  Claim C1. An evaluation returns every item that is neither completed nor notified and
  lies less than 2000 meters from the sample with \<open>notified\<close> set, and returns every
  other item as it was; the alerts it sends are one per such item, in order, each for
  that item (whose title the notification text carries); with distinct item identities
  that is exactly one alert for each such item and none for any other.
\<close>

theorem checkProximity_latches_near_items:
  assumes run: "checkProximity env currentLoc prevItems = (newItems, alerts)"
  shows "length newItems = length prevItems \<and>
    (\<forall>i < length prevItems.
       newItems ! i =
         (if \<not> completed (prevItems ! i) \<and> \<not> notified (prevItems ! i) \<and>
             calculateDistance currentLoc (targetLocation (prevItems ! i)) < 2000
          then (prevItems ! i)\<lparr>notified := True\<rparr> else prevItems ! i)) \<and>
    alerts = map (\<lambda>item. (item, sendNotification env item))
               (filter (\<lambda>item. \<not> completed item \<and> \<not> notified item \<and>
                   calculateDistance currentLoc (targetLocation item) < 2000) prevItems) \<and>
    (distinct (map itemId prevItems) \<longrightarrow>
       (\<forall>item \<in> set prevItems.
          alertsFor (itemId item) alerts =
            (if \<not> completed item \<and> \<not> notified item \<and>
                calculateDistance currentLoc (targetLocation item) < 2000
             then 1 else 0)))"
proof -
  from run have new: "newItems = map (latch currentLoc) prevItems"
    and al: "alerts = map (\<lambda>x. (x, sendNotification env x)) (filter (near currentLoc) prevItems)"
    by (simp_all add: checkProximity_eq)
  have c1: "length newItems = length prevItems"
    by (simp add: new)
  have c2: "\<forall>i < length prevItems.
       newItems ! i =
         (if \<not> completed (prevItems ! i) \<and> \<not> notified (prevItems ! i) \<and>
             calculateDistance currentLoc (targetLocation (prevItems ! i)) < 2000
          then (prevItems ! i)\<lparr>notified := True\<rparr> else prevItems ! i)"
    by (simp add: new latch_def near_def)
  have c3: "alerts = map (\<lambda>item. (item, sendNotification env item))
               (filter (\<lambda>item. \<not> completed item \<and> \<not> notified item \<and>
                   calculateDistance currentLoc (targetLocation item) < 2000) prevItems)"
    using al by (simp add: near_def [abs_def])
  have c4: "alertsFor (itemId item) alerts =
            (if \<not> completed item \<and> \<not> notified item \<and>
                calculateDistance currentLoc (targetLocation item) < 2000
             then 1 else 0)"
    if d: "distinct (map itemId prevItems)" and m: "item \<in> set prevItems" for item
  proof -
    have "alertsFor (itemId item) alerts =
        length (filter (\<lambda>x. itemId x = itemId item \<and> near currentLoc x) prevItems)"
      using alertsFor_checkProximity [of "itemId item" env currentLoc prevItems] run by simp
    also have "\<dots> = (if near currentLoc item then 1 else 0)"
      by (simp add: filter_id_distinct_member [OF d m])
    finally show ?thesis by (simp add: near_def)
  qed
  from c1 c2 c3 c4 show ?thesis by blast
qed

lemmas example_defs = origin_def cafe_def museum_def granted_def newItem_def

theorem checkProximity_latches_near_items_witness:
  "length (fst (checkProximity granted origin [cafe, museum])) = 2 \<and>
   fst (checkProximity granted origin [cafe, museum]) ! 0 = cafe\<lparr>notified := True\<rparr> \<and>
   fst (checkProximity granted origin [cafe, museum]) ! 1 = museum \<and>
   snd (checkProximity granted origin [cafe, museum]) = [(cafe, sendNotification granted cafe)] \<and>
   distinct (map itemId [cafe, museum]) \<and>
   alertsFor ''a'' (snd (checkProximity granted origin [cafe, museum])) = 1 \<and>
   alertsFor ''b'' (snd (checkProximity granted origin [cafe, museum])) = 0"
proof -
  have run: "checkProximity granted origin [cafe, museum] =
      (fst (checkProximity granted origin [cafe, museum]),
       snd (checkProximity granted origin [cafe, museum]))"
    by simp
  have d: "distinct (map itemId [cafe, museum])"
    by (simp add: example_defs)
  have a: "\<not> completed cafe \<and> \<not> notified cafe \<and>
      calculateDistance origin (targetLocation cafe) < 2000"
    by (simp add: example_defs calculateDistance_same)
  have b: "completed museum" "itemId cafe = ''a''" "itemId museum = ''b''"
    by (simp_all add: example_defs)
  note spec = checkProximity_latches_near_items [OF run]
  from spec have len: "length (fst (checkProximity granted origin [cafe, museum])) = 2"
    by simp
  from spec have at: "\<forall>i < 2. fst (checkProximity granted origin [cafe, museum]) ! i =
         (if \<not> completed ([cafe, museum] ! i) \<and> \<not> notified ([cafe, museum] ! i) \<and>
             calculateDistance origin (targetLocation ([cafe, museum] ! i)) < 2000
          then ([cafe, museum] ! i)\<lparr>notified := True\<rparr> else [cafe, museum] ! i)"
    by simp
  from at have at0: "fst (checkProximity granted origin [cafe, museum]) ! 0 = cafe\<lparr>notified := True\<rparr>"
    using a by force
  from at have at1: "fst (checkProximity granted origin [cafe, museum]) ! 1 = museum"
    using b by force
  from spec have al: "snd (checkProximity granted origin [cafe, museum]) =
      [(cafe, sendNotification granted cafe)]"
    using a b by simp
  from spec d have cnt: "\<forall>item \<in> set [cafe, museum].
          alertsFor (itemId item) (snd (checkProximity granted origin [cafe, museum])) =
            (if \<not> completed item \<and> \<not> notified item \<and>
                calculateDistance origin (targetLocation item) < 2000
             then 1 else 0)"
    by blast
  from cnt a b have ca: "alertsFor ''a'' (snd (checkProximity granted origin [cafe, museum])) = 1"
    by force
  from cnt a b have cb: "alertsFor ''b'' (snd (checkProximity granted origin [cafe, museum])) = 0"
    by force
  from len at0 at1 al d ca cb show ?thesis by blast
qed

lemma sendNotification_carries_title:
  \<open>permissionStatus env = Granted \<Longrightarrow> constructs env
      \<lparr>heading = ''You're close!'',
       body = ''You are near "'' @ title item @ ''". Time to check it off your bucket list!'',
       icon = ''https://cdn-icons-png.flaticon.com/512/854/854878.png''\<rparr> \<Longrightarrow>
    \<exists>n. sendNotification env item = Shown n \<and>
        body n = ''You are near "'' @ title item @ ''". Time to check it off your bucket list!''\<close>
  by (simp add: sendNotification_def)

section \<open>Properties of the location sampler\<close>

lemma resolve_last:
  "resolve env (length rs) result (st\<lparr>inFlight := rs @ [r]\<rparr>) =
     (case result of
        Position p \<Rightarrow> handleSuccess env p (st\<lparr>inFlight := rs\<rparr>)
      | PositionError code \<Rightarrow> handleError code (isLowAccuracy r) (st\<lparr>inFlight := rs\<rparr>))"
  by (simp add: resolve_def Let_def)

lemma inFlight_handleSuccess: "inFlight (handleSuccess env p st) = inFlight st"
  by (simp add: handleSuccess_def Let_def split: prod.splits)

lemma inFlight_handleError:
  "inFlight (handleError code isLow st) =
     (if code = 3 \<and> \<not> isLow then inFlight st @ [lowAccuracyRequest] else inFlight st)"
  by (simp add: handleError_def Let_def)

lemma request_flags:
  "isLowAccuracy highAccuracyRequest = False" "isLowAccuracy lowAccuracyRequest = True"
  by (simp_all add: highAccuracyRequest_def lowAccuracyRequest_def)

lemma first_request:
  "resolve env (length (inFlight st)) high (updateLocation True st) =
     (case high of
        Position p \<Rightarrow> handleSuccess env p st
      | PositionError code \<Rightarrow> handleError code False st)"
proof -
  have "st\<lparr>inFlight := inFlight st\<rparr> = st" by simp
  then show ?thesis
    by (cases high) (simp_all add: updateLocation_def resolve_last request_flags)
qed

lemma fallback_request:
  "resolve env (length (inFlight st)) low (handleError 3 False st) =
     (case low of
        Position p \<Rightarrow> handleSuccess env p st
      | PositionError code \<Rightarrow> handleError code True st)"
proof -
  have "st\<lparr>inFlight := inFlight st\<rparr> = st" by simp
  then show ?thesis
    by (cases low) (simp_all add: handleError_def resolve_last request_flags)
qed

lemma sampleAttempt_position:
  "sampleAttempt env (Position p) low st = handleSuccess env p st"
  by (simp add: sampleAttempt_def Let_def first_request inFlight_handleSuccess)

lemma sampleAttempt_error:
  "code \<noteq> 3 \<Longrightarrow> sampleAttempt env (PositionError code) low st = handleError code False st"
  by (simp add: sampleAttempt_def Let_def first_request inFlight_handleError)

lemma sampleAttempt_timeout:
  "sampleAttempt env (PositionError 3) low st =
     (case low of
        Position p \<Rightarrow> handleSuccess env p st
      | PositionError code \<Rightarrow> handleError code True st)"
  by (simp add: sampleAttempt_def Let_def first_request inFlight_handleError fallback_request)

lemma handleSuccess_fields:
  "geoError (handleSuccess env p st) = None"
  "currentLocation (handleSuccess env p st) = Some \<lparr>lat = latitude p, lng = longitude p\<rparr>"
  "isTracking (handleSuccess env p st) = isTracking st"
  "items (handleSuccess env p st) =
     fst (checkProximity env \<lparr>lat = latitude p, lng = longitude p\<rparr> (items st))"
  "notifications (handleSuccess env p st) =
     notifications st @ snd (checkProximity env \<lparr>lat = latitude p, lng = longitude p\<rparr> (items st))"
  "localDB (handleSuccess env p st) = localDB st"
  "cloudService (handleSuccess env p st) = cloudService st"
  by (simp_all add: handleSuccess_def Let_def split: prod.splits)

lemma handleError_surfaced:
  "code \<noteq> 3 \<or> isLow \<Longrightarrow>
     geoError (handleError code isLow st) = Some (errorMessage code) \<and>
     isTracking (handleError code isLow st) = (isTracking st \<and> code \<noteq> 1) \<and>
     inFlight (handleError code isLow st) = inFlight st"
  by (auto simp: handleError_def Let_def)

text \<open>
  Claim C5. When the high-accuracy request of a sample attempt times out (error code 3),
  the only effect is one further request, with low accuracy and unbounded cache age: no
  error is surfaced yet. The error callback of that fallback request never issues a
  request, whatever the error, so once the fallback has resolved nothing of the attempt
  is left in flight. If the fallback succeeds, the error slot is empty and its fix is the
  current location; if it fails, that failure is surfaced.
\<close>

theorem timeout_falls_back_once:
  "handleError 3 False st = st\<lparr>inFlight := inFlight st @ [lowAccuracyRequest]\<rparr> \<and>
   options lowAccuracyRequest =
     \<lparr>enableHighAccuracy = False, timeout = 30000, maximumAge = None\<rparr> \<and>
   isLowAccuracy lowAccuracyRequest \<and>
   inFlight (handleError code True st) = inFlight st \<and>
   inFlight (sampleAttempt env (PositionError 3) low st) = inFlight st \<and>
   sampleAttempt env (PositionError 3) (Position p) st = handleSuccess env p st \<and>
   geoError (sampleAttempt env (PositionError 3) (Position p) st) = None \<and>
   currentLocation (sampleAttempt env (PositionError 3) (Position p) st) =
     Some \<lparr>lat = latitude p, lng = longitude p\<rparr> \<and>
   geoError (sampleAttempt env (PositionError 3) (PositionError code) st) =
     Some (errorMessage code)"
proof -
  have a: "handleError 3 False st = st\<lparr>inFlight := inFlight st @ [lowAccuracyRequest]\<rparr>"
    by (simp add: handleError_def)
  have b: "options lowAccuracyRequest =
      \<lparr>enableHighAccuracy = False, timeout = 30000, maximumAge = None\<rparr>"
    "isLowAccuracy lowAccuracyRequest"
    by (simp_all add: lowAccuracyRequest_def)
  have c: "inFlight (handleError code True st) = inFlight st"
    by (simp add: inFlight_handleError)
  have d: "inFlight (sampleAttempt env (PositionError 3) low st) = inFlight st"
    by (cases low) (simp_all add: sampleAttempt_timeout inFlight_handleSuccess inFlight_handleError)
  have e: "sampleAttempt env (PositionError 3) (Position p) st = handleSuccess env p st"
    by (simp add: sampleAttempt_timeout)
  have f: "geoError (sampleAttempt env (PositionError 3) (PositionError code) st) =
      Some (errorMessage code)"
    by (simp add: sampleAttempt_timeout handleError_surfaced)
  from a b c d e f show ?thesis
    by (simp add: handleSuccess_fields)
qed

text \<open>
  Claim C6. A sample attempt that fails with the error code \<open>code\<close> (at once when the
  code is not a timeout, or after the fallback request when the high-accuracy request
  timed out) puts the message of that error into the error slot; it turns tracking off
  when the code is 1 (permission denied) and leaves tracking as it was for every other
  code (2 position unavailable, 3 timeout). A successful sample empties the slot, and so
  does dismissing it.
\<close>

theorem sample_failure_surfaced:
  "(code \<noteq> 3 \<longrightarrow>
      geoError (sampleAttempt env (PositionError code) low st) = Some (errorMessage code) \<and>
      isTracking (sampleAttempt env (PositionError code) low st) = (isTracking st \<and> code \<noteq> 1)) \<and>
   geoError (sampleAttempt env (PositionError 3) (PositionError code) st) =
     Some (errorMessage code) \<and>
   isTracking (sampleAttempt env (PositionError 3) (PositionError code) st) =
     (isTracking st \<and> code \<noteq> 1) \<and>
   geoError (sampleAttempt env (Position p) low st) = None \<and>
   geoError (sampleAttempt env (PositionError 3) (Position p) st) = None \<and>
   geoError (dismissGeoError st) = None"
  by (simp add: sampleAttempt_position sampleAttempt_error sampleAttempt_timeout
      handleError_surfaced handleSuccess_fields dismissGeoError_def)

lemma tracking_fields:
  "isTracking tracking" "inFlight tracking = [highAccuracyRequest]" "items tracking = [cafe]"
  "geoError tracking = None" "currentLocation tracking = None" "notifications tracking = []"
  "localDB tracking = [(''a'', cafe)]" "user tracking = None" "editingItem tracking = None"
  by (simp_all add: tracking_def toggleTracking_def tick_def updateLocation_def initialApp_def)

theorem sample_failure_surfaced_witness:
  "geoError (sampleAttempt unprompted (PositionError 1) (PositionError 1) tracking) =
     Some ''Location permission denied. Please enable it in your browser settings.'' \<and>
   \<not> isTracking (sampleAttempt unprompted (PositionError 1) (PositionError 1) tracking) \<and>
   geoError (sampleAttempt unprompted (PositionError 2) (PositionError 2) tracking) =
     Some ''Location information is unavailable.'' \<and>
   isTracking (sampleAttempt unprompted (PositionError 2) (PositionError 2) tracking) \<and>
   geoError (sampleAttempt unprompted (PositionError 3) (PositionError 3) tracking) =
     Some ''Location request timed out. Please check your signal or move to an open area.'' \<and>
   isTracking (sampleAttempt unprompted (PositionError 3) (PositionError 3) tracking)"
proof -
  note one = sample_failure_surfaced [of 1 unprompted "PositionError 1" tracking undefined]
  note two = sample_failure_surfaced [of 2 unprompted "PositionError 2" tracking undefined]
  note three = sample_failure_surfaced [of 3 unprompted "PositionError 3" tracking undefined]
  from one two three show ?thesis
    by (simp add: errorMessage_def tracking_fields)
qed

lemma stopped_fields:
  "\<not> isTracking stopped" "inFlight stopped = [highAccuracyRequest]" "items stopped = [cafe]"
  "currentLocation stopped = None" "notifications stopped = []"
  by (simp_all add: stopped_def toggleTracking_def tracking_fields)

lemma checkProximity_cafe:
  "checkProximity env \<lparr>lat = 0, lng = 0\<rparr> [cafe] =
     ([cafe\<lparr>notified := True\<rparr>], [(cafe, sendNotification env cafe)])"
  by (simp add: checkProximity_eq latch_def near_def cafe_def newItem_def origin_def
      calculateDistance_same)

lemma resolve_position:
  "k < length (inFlight st) \<Longrightarrow>
   resolve env k (Position p) st =
     handleSuccess env p (st\<lparr>inFlight := take k (inFlight st) @ drop (Suc k) (inFlight st)\<rparr>)"
  by (simp add: resolve_def Let_def)

text \<open>
  Claim C4, as stated, fails: tracking is started (one request goes out), stopped, and
  then the request resolves with a fix. The fix becomes the current location and the
  evaluator runs on it: it latches the item and calls \<^verbatim>\<open>sendNotification\<close> for it.
\<close>

theorem stale_sample_applied_after_stop:
  "\<not> isTracking stopped \<and>
   inFlight stopped = [highAccuracyRequest] \<and>
   currentLocation stopped = None \<and>
   items stopped = [cafe] \<and>
   currentLocation (resolve unprompted 0 fixAtOrigin stopped) = Some \<lparr>lat = 0, lng = 0\<rparr> \<and>
   items (resolve unprompted 0 fixAtOrigin stopped) = [cafe\<lparr>notified := True\<rparr>] \<and>
   notifications (resolve unprompted 0 fixAtOrigin stopped) = [(cafe, sendNotification unprompted cafe)]"
  by (simp add: stopped_fields fixAtOrigin_def resolve_position handleSuccess_fields
      checkProximity_cafe)

text \<open>
  Claim C4, amended. Once tracking is off, the timer issues no further request and a late
  result does not turn tracking on again; but the result of a request that was in flight
  is not discarded: when it resolves with a fix, the fix becomes the current location
  and the evaluator is invoked on it.
\<close>

theorem stop_cancels_timer_only:
  assumes "\<not> isTracking st" and "k < length (inFlight st)"
  shows "tick geolocation st = st \<and>
    \<not> isTracking (resolve env k (Position p) st) \<and>
    currentLocation (resolve env k (Position p) st) =
      Some \<lparr>lat = latitude p, lng = longitude p\<rparr> \<and>
    items (resolve env k (Position p) st) =
      fst (checkProximity env \<lparr>lat = latitude p, lng = longitude p\<rparr> (items st)) \<and>
    notifications (resolve env k (Position p) st) =
      notifications st @
      snd (checkProximity env \<lparr>lat = latitude p, lng = longitude p\<rparr> (items st))"
  using assms by (simp add: tick_def resolve_position handleSuccess_fields)

theorem stop_cancels_timer_only_witness:
  "\<not> isTracking stopped \<and> 0 < length (inFlight stopped) \<and>
   tick True stopped = stopped \<and>
   \<not> isTracking (resolve unprompted 0 (Position \<lparr>latitude = 0, longitude = 0\<rparr>) stopped) \<and>
   currentLocation (resolve unprompted 0 (Position \<lparr>latitude = 0, longitude = 0\<rparr>) stopped) =
     Some \<lparr>lat = 0, lng = 0\<rparr> \<and>
   items (resolve unprompted 0 (Position \<lparr>latitude = 0, longitude = 0\<rparr>) stopped) =
     [cafe\<lparr>notified := True\<rparr>]"
proof -
  have h1: "\<not> isTracking stopped" and h2: "0 < length (inFlight stopped)"
    by (simp_all add: stopped_fields)
  from stop_cancels_timer_only [OF h1 h2, of True unprompted "\<lparr>latitude = 0, longitude = 0\<rparr>"] h1 h2
  show ?thesis
    by (simp add: stopped_fields checkProximity_cafe)
qed

section \<open>The latch under edits\<close>

text \<open>
  An evaluation never clears the flag.
\<close>

lemma checkProximity_keeps_notified:
  "i < length its \<Longrightarrow> notified (its ! i) \<Longrightarrow> notified (fst (checkProximity env loc its) ! i)"
  by (simp add: checkProximity_eq latch_def)

lemma latched_fields:
  "items latched = [cafe\<lparr>notified := True\<rparr>]" "editingItem latched = Some cafe"
  "user latched = None" "localDB latched = [(''a'', cafe)]"
  "notifications latched = [(cafe, sendNotification unprompted cafe)]"
  "inFlight latched = []"
  by (simp_all add: latched_def editing_def initiateEdit_def fixAtOrigin_def resolve_position
      tracking_fields handleSuccess_def checkProximity_cafe)

lemma saved_fields:
  "items saved = [cafe\<lparr>title := ''Coffee bar''\<rparr>]"
  "notifications saved = [(cafe, sendNotification unprompted cafe)]"
  "inFlight saved = []"
  by (simp_all add: saved_def handleSaveItem_def latched_fields Let_def cafe_def newItem_def)

text \<open>
  Claim C2 at a concrete run: the edit dialog is opened on an item, a location sample
  then latches the item, and the dialog is saved. The saved item is built from the copy
  taken when the dialog was opened, so the item, still the same identity and never
  deleted, is back to \<open>notified = False\<close>; the next sample calls
  \<^verbatim>\<open>sendNotification\<close> for it a second time.
\<close>

theorem edit_resets_latch:
  "map itemId (items latched) = [''a''] \<and> map notified (items latched) = [True] \<and>
   map itemId (items saved) = [''a''] \<and> map notified (items saved) = [False] \<and>
   alertsFor ''a'' (notifications (sampleAttempt unprompted fixAtOrigin fixAtOrigin saved)) = 2"
proof -
  have near: "near \<lparr>lat = 0, lng = 0\<rparr> (cafe\<lparr>title := ''Coffee bar''\<rparr>)"
    by (simp add: near_def cafe_def newItem_def origin_def calculateDistance_same)
  have "notifications (sampleAttempt unprompted fixAtOrigin fixAtOrigin saved) =
      [(cafe, sendNotification unprompted cafe),
       (cafe\<lparr>title := ''Coffee bar''\<rparr>, sendNotification unprompted (cafe\<lparr>title := ''Coffee bar''\<rparr>))]"
    by (simp add: fixAtOrigin_def sampleAttempt_position handleSuccess_fields saved_fields
        checkProximity_eq near)
  then show ?thesis
    by (simp add: latched_fields saved_fields alertsFor_def cafe_def newItem_def)
qed

section \<open>Properties of the stores\<close>

lemma localDB_saveItem_twice:
  "localDB_saveItem item (localDB_saveItem item db) = localDB_saveItem item db"
  by (simp add: localDB_saveItem_def AList.update_last)

lemma localDB_deleteItem_absent:
  "iid \<notin> fst ` set db \<Longrightarrow> localDB_deleteItem iid db = db"
  by (simp add: localDB_deleteItem_def AList.delete_id)

lemma firebase_addItem_twice:
  "firebase_addItem usr item (firebase_addItem usr item fs) = firebase_addItem usr item fs"
  by (simp add: firebase_addItem_def AList.update_last)

lemma mergeFields_twice: "mergeFields (mergeFields old item) item = mergeFields old item"
  by (simp add: mergeFields_def split: option.splits)

lemma firebase_updateItem_twice:
  "firebase_updateItem usr item fs = Inr fs' \<Longrightarrow> firebase_updateItem usr item fs' = Inr fs'"
  by (auto simp: firebase_updateItem_def update_conv' mergeFields_twice AList.update_last
      split: option.splits)

lemma firebase_updateItem_missing:
  "firebase_updateItem usr item fs = Inl e \<Longrightarrow> map_of fs (itemId item) = None"
  by (simp add: firebase_updateItem_def split: option.splits)

lemma firebase_deleteItem_absent:
  "iid \<notin> fst ` set fs \<Longrightarrow> firebase_deleteItem usr iid fs = fs"
  by (simp add: firebase_deleteItem_def AList.delete_id)

lemma getMockItems_saveMockItems:
  "getMockItems usr' (saveMockItems usr its ls) = (if usr' = usr then its else getMockItems usr' ls)"
  by (simp add: getMockItems_def saveMockItems_def update_conv')

lemma replace_twice:
  "map (\<lambda>i. if itemId i = itemId item then item else i)
     (map (\<lambda>i. if itemId i = itemId item then item else i) xs) =
   map (\<lambda>i. if itemId i = itemId item then item else i) xs"
  by (induction xs) simp_all

lemma mock_updateItem_twice:
  "mock_updateItem usr item (mock_updateItem usr item ls) = mock_updateItem usr item ls"
proof -
  have "saveMockItems usr its (saveMockItems usr its' ls) = saveMockItems usr its ls"
    for its its'
    by (simp add: saveMockItems_def AList.update_last)
  then show ?thesis
    by (simp add: mock_updateItem_def Let_def getMockItems_saveMockItems replace_twice
        del: map_map)
qed

lemma mock_deleteItem_absent:
  "iid \<notin> itemId ` set (getMockItems usr ls) \<Longrightarrow>
   getMockItems usr' (mock_deleteItem usr iid ls) = getMockItems usr' ls"
proof -
  assume "iid \<notin> itemId ` set (getMockItems usr ls)"
  then have "filter (\<lambda>i. itemId i \<noteq> iid) (getMockItems usr ls) = getMockItems usr ls"
    by (auto simp: filter_id_conv)
  then show ?thesis
    by (simp add: mock_deleteItem_def Let_def getMockItems_saveMockItems)
qed

text \<open>
  Claim C8 at a concrete input: adding the same item twice through the mock cloud
  service leaves two entries with that identity, where adding it once leaves one.
\<close>

theorem mock_addItem_twice_duplicates:
  "getMockItems ''u'' (mock_addItem ''u'' cafe []) = [cafe\<lparr>userId := Some ''u''\<rparr>] \<and>
   getMockItems ''u'' (mock_addItem ''u'' cafe (mock_addItem ''u'' cafe [])) =
     [cafe\<lparr>userId := Some ''u''\<rparr>, cafe\<lparr>userId := Some ''u''\<rparr>] \<and>
   mock_addItem ''u'' cafe (mock_addItem ''u'' cafe []) \<noteq> mock_addItem ''u'' cafe []"
  by (simp add: mock_addItem_def Let_def getMockItems_def saveMockItems_def)

text \<open>
  Claim C7. When the \<open>items\<close> field of the backup document is not an array, the import
  is rejected with the format error, the local store is what it was, and the settings
  dialog reports an invalid file and leaves the whole application state, the in-memory
  items included, as it was.
\<close>

theorem import_rejects_non_array:
  assumes "\<not> isArray (backupItems data)"
  shows "localDB_importBackup (Document data) db = (Inl InvalidBackupFileFormat, db) \<and>
    handleFileChange (Document data) st = (st, InvalidBackupFile)"
proof -
  from assms have "localDB_importBackup (Document data) db' = (Inl InvalidBackupFileFormat, db')"
    for db'
    by (cases "backupItems data") (simp_all add: localDB_importBackup_def)
  then show ?thesis
    by (simp add: handleFileChange_def)
qed

theorem import_rejects_non_array_witness:
  "\<not> isArray (backupItems brokenBackup) \<and>
   localDB_importBackup (Document brokenBackup) [(''a'', cafe)] =
     (Inl InvalidBackupFileFormat, [(''a'', cafe)]) \<and>
   handleFileChange (Document brokenBackup) tracking = (tracking, InvalidBackupFile)"
proof -
  have h: "\<not> isArray (backupItems brokenBackup)"
    by (simp add: brokenBackup_def)
  from import_rejects_non_array [OF h, of "[(''a'', cafe)]" tracking] h show ?thesis
    by simp
qed

section \<open>The latch and the stores\<close>

lemma items_loadItems:
  "items (loadItems st) =
     (case user st of
        Some u \<Rightarrow> subscribeToItems (uid u) (cloudService st)
      | None \<Rightarrow> sort_key (\<lambda>i. - createdAt i) (localDB_getAllItems (localDB st)))"
  by (simp add: loadItems_def Let_def split: option.splits)

lemma resolve_stores:
  "localDB (resolve env k result st) = localDB st \<and>
   cloudService (resolve env k result st) = cloudService st \<and>
   user (resolve env k result st) = user st"
  by (cases result)
     (simp_all add: resolve_def Let_def handleSuccess_def handleError_def split: prod.splits)

text \<open>
  Claim C10. Handling a location sample, evaluation included, writes neither the local
  store nor the cloud store: both are what they were, in local mode and when signed in,
  also when the sample arrives as the resolution of an in-flight request. The latch
  lives in the in-memory item list only, so loading the items again gives the item list
  that loading them before the sample would have given, with the flags as persisted.
\<close>

theorem evaluation_writes_no_store:
  "localDB (handleSuccess env p st) = localDB st \<and>
   cloudService (handleSuccess env p st) = cloudService st \<and>
   localDB (resolve env k result st) = localDB st \<and>
   cloudService (resolve env k result st) = cloudService st \<and>
   items (loadItems (handleSuccess env p st)) = items (loadItems st) \<and>
   items (loadItems (resolve env k result st)) = items (loadItems st)"
proof -
  have "user (handleSuccess env p st) = user st"
    by (simp add: handleSuccess_def Let_def split: prod.splits)
  then show ?thesis
    by (simp add: handleSuccess_fields resolve_stores items_loadItems cong: option.case_cong)
qed

theorem evaluation_writes_no_store_witness:
  "user tracking = None \<and>
   map notified (items (resolve unprompted 0 fixAtOrigin tracking)) = [True] \<and>
   localDB (resolve unprompted 0 fixAtOrigin tracking) = [(''a'', cafe)] \<and>
   items (loadItems (resolve unprompted 0 fixAtOrigin tracking)) = [cafe] \<and>
   \<not> notified cafe"
proof -
  have load: "items (loadItems tracking) = [cafe]"
    by (simp add: items_loadItems tracking_fields localDB_getAllItems_def)
  have latch: "map notified (items (resolve unprompted 0 fixAtOrigin tracking)) = [True]"
    by (simp add: fixAtOrigin_def resolve_position tracking_fields handleSuccess_fields
        checkProximity_cafe)
  note frame = evaluation_writes_no_store [of unprompted undefined tracking 0 fixAtOrigin]
  from frame load latch show ?thesis
    by (simp add: tracking_fields cafe_def newItem_def)
qed

section \<open>The latch and the subscription\<close>

lemma checkProximity_items_any_env:
  "fst (checkProximity env loc its) = fst (checkProximity env' loc its)"
  by (simp add: checkProximity_eq)

lemma resolve_fix:
  "k < length (inFlight st) \<Longrightarrow>
   resolve env k fixAtOrigin st =
     handleSuccess env \<lparr>latitude = 0, longitude = 0\<rparr>
       (st\<lparr>inFlight := take k (inFlight st) @ drop (Suc k) (inFlight st)\<rparr>)"
  by (simp add: fixAtOrigin_def resolve_position)

lemma signedIn_fields:
  "isTracking signedIn" "inFlight signedIn = [highAccuracyRequest]"
  "items signedIn = [cafe\<lparr>userId := Some ''u''\<rparr>]"
  "user signedIn = Some \<lparr>uid = ''u'', email = None\<rparr>"
  "cloudService signedIn = MockCloudService [(''u'', [cafe\<lparr>userId := Some ''u''\<rparr>])]"
  "notifications signedIn = []"
  by (simp_all add: signedIn_def toggleTracking_def tick_def updateLocation_def initialApp_def
      loadItems_def mock_addItem_def getMockItems_def saveMockItems_def Let_def)

lemma checkProximity_stored_cafe:
  "checkProximity env \<lparr>lat = 0, lng = 0\<rparr> [cafe\<lparr>userId := Some ''u''\<rparr>] =
     ([cafe\<lparr>userId := Some ''u'', notified := True\<rparr>],
      [(cafe\<lparr>userId := Some ''u''\<rparr>, sendNotification env (cafe\<lparr>userId := Some ''u''\<rparr>))])"
  by (simp add: checkProximity_eq latch_def near_def cafe_def newItem_def origin_def
      calculateDistance_same)

lemma first_sample_fields:
  "items (resolve env 0 fixAtOrigin signedIn) = [cafe\<lparr>userId := Some ''u'', notified := True\<rparr>]"
  "notifications (resolve env 0 fixAtOrigin signedIn) =
     [(cafe\<lparr>userId := Some ''u''\<rparr>, sendNotification env (cafe\<lparr>userId := Some ''u''\<rparr>))]"
  "cloudService (resolve env 0 fixAtOrigin signedIn) = cloudService signedIn"
  "user (resolve env 0 fixAtOrigin signedIn) = user signedIn"
  "isTracking (resolve env 0 fixAtOrigin signedIn)"
  "inFlight (resolve env 0 fixAtOrigin signedIn) = []"
  by (simp_all add: resolve_fix signedIn_fields handleSuccess_def checkProximity_stored_cafe)

lemma pushed_fields:
  "items (loadItems (resolve env 0 fixAtOrigin signedIn)) = [cafe\<lparr>userId := Some ''u''\<rparr>]"
  "notifications (loadItems (resolve env 0 fixAtOrigin signedIn)) =
     [(cafe\<lparr>userId := Some ''u''\<rparr>, sendNotification env (cafe\<lparr>userId := Some ''u''\<rparr>))]"
  "isTracking (loadItems (resolve env 0 fixAtOrigin signedIn))"
  "inFlight (loadItems (resolve env 0 fixAtOrigin signedIn)) = []"
  by (simp_all add: loadItems_def first_sample_fields signedIn_fields getMockItems_def)

text \<open>
  Claim C3 at a concrete run: signed in to the mock cloud service, one stored item at
  the sample position, tracking on. The first fix latches the item in the in-memory
  list and calls \<^verbatim>\<open>sendNotification\<close> for it; the cloud store is not written. The
  next delivery of the subscription replaces the list with the stored items, where the
  item is not notified, and the fix of the next timer firing calls
  \<^verbatim>\<open>sendNotification\<close> for the same item again. This holds in every notification
  environment.
\<close>

theorem subscription_delivery_drops_latch:
  "map notified (items (resolve env 0 fixAtOrigin signedIn)) = [True] \<and>
   cloudService (resolve env 0 fixAtOrigin signedIn) = cloudService signedIn \<and>
   map notified (items (loadItems (resolve env 0 fixAtOrigin signedIn))) = [False] \<and>
   map (itemId \<circ> fst)
     (notifications (resolve env 0 fixAtOrigin
        (tick True (loadItems (resolve env 0 fixAtOrigin signedIn))))) = [''a'', ''a''] \<and>
   alertsFor ''a''
     (notifications (resolve env 0 fixAtOrigin
        (tick True (loadItems (resolve env 0 fixAtOrigin signedIn))))) = 2"
proof -
  let ?pushed = "loadItems (resolve env 0 fixAtOrigin signedIn)"
  have ticked: "tick True ?pushed = ?pushed\<lparr>inFlight := [highAccuracyRequest]\<rparr>"
    by (simp add: tick_def updateLocation_def pushed_fields)
  have "notifications (resolve env 0 fixAtOrigin (tick True ?pushed)) =
      [(cafe\<lparr>userId := Some ''u''\<rparr>, sendNotification env (cafe\<lparr>userId := Some ''u''\<rparr>)),
       (cafe\<lparr>userId := Some ''u''\<rparr>, sendNotification env (cafe\<lparr>userId := Some ''u''\<rparr>))]"
    unfolding ticked
    by (simp add: resolve_fix handleSuccess_fields pushed_fields checkProximity_stored_cafe)
  then show ?thesis
    by (simp add: first_sample_fields pushed_fields alertsFor_def cafe_def newItem_def)
qed

text \<open>
  The same overwrite happens through \<^verbatim>\<open>toggleComplete\<close> when a fix resolves
  during its store call: the item written back was built before the latch.
\<close>

lemma toggle_overwrites_latch:
  "fst toggling = Some (cafe\<lparr>completed := True, completedAt := Some 9\<rparr>) \<and>
   map notified (items (resolve env 0 fixAtOrigin (snd toggling))) = [True] \<and>
   map notified (items (toggleComplete_finish ''a'' (cafe\<lparr>completed := True, completedAt := Some 9\<rparr>)
      (resolve env 0 fixAtOrigin (snd toggling)))) = [False]"
proof -
  have found: "find (\<lambda>i. itemId i = ''a'') [cafe] = Some cafe" "\<not> completed cafe"
    "\<not> notified cafe" "itemId cafe = ''a''"
    by (simp_all add: cafe_def newItem_def)
  have started: "fst toggling = Some (cafe\<lparr>completed := True, completedAt := Some 9\<rparr>)"
    "items (snd toggling) = [cafe]" "inFlight (snd toggling) = [highAccuracyRequest]"
    by (simp_all add: toggling_def toggleComplete_start_def tracking_fields Let_def found)
  have latched: "items (resolve env 0 fixAtOrigin (snd toggling)) = [cafe\<lparr>notified := True\<rparr>]"
    by (simp add: resolve_fix started handleSuccess_fields checkProximity_cafe)
  show ?thesis
    by (simp add: started latched toggleComplete_finish_def found)
qed

end
